theory Spec2Isabelle
  imports Main
begin

section \<open>Data model\<close>

text \<open>
  The entity types (\<^verbatim>\<open>User\<close>, \<^verbatim>\<open>Component\<close>, \<^verbatim>\<open>BorrowRequest\<close>, \<^verbatim>\<open>Notification\<close>,
  \<^verbatim>\<open>LoginSession\<close>) are declared in \<^verbatim>\<open>src/types\<close>, which is not among the sources.
  \<^verbatim>\<open>hybridDataService.ts\<close> only relies on the bound of \<^verbatim>\<open>mergeArrays\<close>,
  \<^verbatim>\<open>T extends { id: string; [key: string]: any }\<close>: an entity is a record with a string
  identifier and further fields. The further fields are the extension part of the
  record, a type parameter for each entity type. The field is named \<open>id'\<close> because
  \<open>id\<close> is the identity function of HOL.
\<close>

record entity =
  id' :: string

text \<open>
  Of a login session the service reads \<^verbatim>\<open>userId\<close>, \<^verbatim>\<open>isActive\<close> and \<^verbatim>\<open>loginTime\<close>
  and writes \<^verbatim>\<open>isActive\<close>, \<^verbatim>\<open>logoutTime\<close> and \<^verbatim>\<open>sessionDuration\<close>; the last two are
  absent (\<open>None\<close>) while the session is open.
  A time stamp is the number of milliseconds since the epoch: the ISO string that the
  source stores (\<^verbatim>\<open>toISOString\<close>) and parses back (\<^verbatim>\<open>new Date(s).getTime()\<close>) is
  identified with that number.
\<close>

record LoginSession = entity +
  userId :: string
  isActive :: bool
  loginTime :: int
  logoutTime :: "int option"
  sessionDuration :: "int option"

text \<open>The object literal passed to \<^verbatim>\<open>firebaseService.updateLoginSession\<close>.\<close>

record LoginSessionClose =
  isActive_new :: bool
  logoutTime_new :: int
  sessionDuration_new :: int

record ('u, 'c, 'q, 'n, 's) SystemData =
  users :: "'u entity_scheme list"
  components :: "'c entity_scheme list"
  requests :: "'q entity_scheme list"
  notifications :: "'n entity_scheme list"
  loginSessions :: "'s LoginSession_scheme list"

section \<open>Reconciliation: \<^verbatim>\<open>mergeArrays\<close> and \<^verbatim>\<open>mergeData\<close>\<close>

text \<open>
  \<^verbatim>\<open>Array.prototype.findIndex\<close>: the index of the first element satisfying the
  predicate, \<open>-1\<close> when there is none.
\<close>

fun findIndexFrom :: "('a \<Rightarrow> bool) \<Rightarrow> 'a list \<Rightarrow> int \<Rightarrow> int" where
  "findIndexFrom p [] i = - 1"
| "findIndexFrom p (x # xs) i = (if p x then i else findIndexFrom p xs (i + 1))"

definition findIndex :: "('a \<Rightarrow> bool) \<Rightarrow> 'a list \<Rightarrow> int" where
  "findIndex p xs = findIndexFrom p xs 0"

text \<open>
  The callback of \<^verbatim>\<open>local.forEach\<close> in \<^verbatim>\<open>mergeArrays\<close>: it searches \<^verbatim>\<open>merged\<close>, the
  array that grows during the loop, and pushes the local item when no element of
  \<^verbatim>\<open>merged\<close> has its identifier. \<open>idField\<close> is the property read by
  \<^verbatim>\<open>item[idField]\<close>, given as the selector of that property.
\<close>

definition mergeItem :: "('a \<Rightarrow> string) \<Rightarrow> 'a list \<Rightarrow> 'a \<Rightarrow> 'a list" where
  "mergeItem idField merged localItem =
     (let existingIndex = findIndex (\<lambda>item. idField item = idField localItem) merged
      in if existingIndex = - 1 then merged @ [localItem] else merged)"

definition mergeArrays :: "'a list \<Rightarrow> 'a list \<Rightarrow> ('a \<Rightarrow> string) \<Rightarrow> 'a list" where
  "mergeArrays local firebase idField = foldl (mergeItem idField) firebase local"

definition mergeData ::
  "('u, 'c, 'q, 'n, 's) SystemData \<Rightarrow> ('u, 'c, 'q, 'n, 's) SystemData
     \<Rightarrow> ('u, 'c, 'q, 'n, 's) SystemData" where
  "mergeData localData firebaseData =
     \<lparr> users = mergeArrays (users localData) (users firebaseData) id',
       components = mergeArrays (components localData) (components firebaseData) id',
       requests = mergeArrays (requests localData) (requests firebaseData) id',
       notifications = mergeArrays (notifications localData) (notifications firebaseData) id',
       loginSessions = mergeArrays (loginSessions localData) (loginSessions firebaseData) id' \<rparr>"

definition isFirebaseEmpty :: "('u, 'c, 'q, 'n, 's) SystemData \<Rightarrow> bool" where
  "isFirebaseEmpty data \<longleftrightarrow>
     length (users data) = 0 \<and> length (components data) = 0 \<and> length (requests data) = 0"

section \<open>The service and its collaborators\<close>

text \<open>A thrown value.\<close>

datatype error = Error string

text \<open>\<^verbatim>\<open>console.log\<close>, \<^verbatim>\<open>console.warn\<close>, \<^verbatim>\<open>console.error\<close>.\<close>

datatype level = Log | Warn | Err

type_synonym logEntry = "level \<times> string \<times> error option"

text \<open>
  Every call the service makes to \<^verbatim>\<open>dataService\<close> and to \<^verbatim>\<open>firebaseService\<close> is recorded,
  with its arguments, in the order in which it is made.
\<close>

datatype ('u, 'c, 'q, 'n, 's) localCall =
    DS_getData
  | DS_saveData "('u, 'c, 'q, 'n, 's) SystemData"
  | DS_addUser "'u entity_scheme"
  | DS_updateUser "'u entity_scheme"
  | DS_addComponent "'c entity_scheme"
  | DS_updateComponent "'c entity_scheme"
  | DS_deleteComponent string
  | DS_addRequest "'q entity_scheme"
  | DS_updateRequest "'q entity_scheme"
  | DS_addNotification "'n entity_scheme"
  | DS_markNotificationAsRead string
  | DS_createLoginSession "'u entity_scheme"
  | DS_endLoginSession string

datatype ('u, 'c, 'q, 'n, 's) remoteCall =
    FS_syncWithFirebase
  | FS_migrateLocalDataToFirebase "('u, 'c, 'q, 'n, 's) SystemData"
  | FS_createUser "'u entity_scheme"
  | FS_updateUser string "'u entity_scheme"
  | FS_createComponent "'c entity_scheme"
  | FS_updateComponent string "'c entity_scheme"
  | FS_deleteComponent string
  | FS_createRequest "'q entity_scheme"
  | FS_updateRequest string "'q entity_scheme"
  | FS_createNotification "'n entity_scheme"
  | FS_markNotificationAsRead string
  | FS_createLoginSession "'s LoginSession_scheme"
  | FS_getAllLoginSessions
  | FS_updateLoginSession string LoginSessionClose

datatype ('a, 'b) call = Local 'a | Remote 'b

type_synonym ('u, 'c, 'q, 'n, 's) calls =
  "(('u, 'c, 'q, 'n, 's) localCall, ('u, 'c, 'q, 'n, 's) remoteCall) call list"

fun isRemote :: "('a, 'b) call \<Rightarrow> bool" where
  "isRemote (Remote c) = True"
| "isRemote (Local c) = False"

text \<open>
  An operation of a collaborator on its store \<open>'st\<close>: it returns or throws, and
  leaves a store behind in both cases.
\<close>

type_synonym ('st, 'a) operation = "'st \<Rightarrow> (error + 'a) \<times> 'st"

text \<open>
  \<^verbatim>\<open>dataService\<close> and \<^verbatim>\<open>firebaseService\<close> are imported from modules that are not among
  the sources; the service is modelled for any implementation of the methods it calls.
  \<open>'l\<close> is the state behind the local adapter, \<open>'r\<close> the state behind the remote
  one. \<^verbatim>\<open>getData\<close> is a read: it returns the snapshot held in the local store, does not
  change the store and does not throw (spec 2: the local store is always available).
  A writing method of the local adapter may throw, and is handed the reading of the
  wall clock at the moment of the call (its first argument after the method's own),
  since the adapter stamps sessions with the time. A method of the remote adapter may
  throw at every call.
\<close>

record ('u, 'c, 'q, 'n, 's, 'l) dataService =
  ds_getData :: "'l \<Rightarrow> ('u, 'c, 'q, 'n, 's) SystemData"
  ds_saveData :: "('u, 'c, 'q, 'n, 's) SystemData \<Rightarrow> int \<Rightarrow> ('l, unit) operation"
  ds_addUser :: "'u entity_scheme \<Rightarrow> int \<Rightarrow> ('l, unit) operation"
  ds_updateUser :: "'u entity_scheme \<Rightarrow> int \<Rightarrow> ('l, unit) operation"
  ds_addComponent :: "'c entity_scheme \<Rightarrow> int \<Rightarrow> ('l, unit) operation"
  ds_updateComponent :: "'c entity_scheme \<Rightarrow> int \<Rightarrow> ('l, unit) operation"
  ds_deleteComponent :: "string \<Rightarrow> int \<Rightarrow> ('l, unit) operation"
  ds_addRequest :: "'q entity_scheme \<Rightarrow> int \<Rightarrow> ('l, unit) operation"
  ds_updateRequest :: "'q entity_scheme \<Rightarrow> int \<Rightarrow> ('l, unit) operation"
  ds_addNotification :: "'n entity_scheme \<Rightarrow> int \<Rightarrow> ('l, unit) operation"
  ds_markNotificationAsRead :: "string \<Rightarrow> int \<Rightarrow> ('l, unit) operation"
  ds_createLoginSession :: "'u entity_scheme \<Rightarrow> int \<Rightarrow> ('l, 's LoginSession_scheme) operation"
  ds_endLoginSession :: "string \<Rightarrow> int \<Rightarrow> ('l, unit) operation"

record ('u, 'c, 'q, 'n, 's, 'r) firebaseService =
  fs_syncWithFirebase :: "('r, ('u, 'c, 'q, 'n, 's) SystemData) operation"
  fs_migrateLocalDataToFirebase :: "('u, 'c, 'q, 'n, 's) SystemData \<Rightarrow> ('r, unit) operation"
  fs_createUser :: "'u entity_scheme \<Rightarrow> ('r, unit) operation"
  fs_updateUser :: "string \<Rightarrow> 'u entity_scheme \<Rightarrow> ('r, unit) operation"
  fs_createComponent :: "'c entity_scheme \<Rightarrow> ('r, unit) operation"
  fs_updateComponent :: "string \<Rightarrow> 'c entity_scheme \<Rightarrow> ('r, unit) operation"
  fs_deleteComponent :: "string \<Rightarrow> ('r, unit) operation"
  fs_createRequest :: "'q entity_scheme \<Rightarrow> ('r, unit) operation"
  fs_updateRequest :: "string \<Rightarrow> 'q entity_scheme \<Rightarrow> ('r, unit) operation"
  fs_createNotification :: "'n entity_scheme \<Rightarrow> ('r, unit) operation"
  fs_markNotificationAsRead :: "string \<Rightarrow> ('r, unit) operation"
  fs_createLoginSession :: "'s LoginSession_scheme \<Rightarrow> ('r, unit) operation"
  fs_getAllLoginSessions :: "('r, 's LoginSession_scheme list) operation"
  fs_updateLoginSession :: "string \<Rightarrow> LoginSessionClose \<Rightarrow> ('r, unit) operation"

text \<open>
  The state: the two fields of \<^verbatim>\<open>HybridDataService\<close>, the stores behind the two
  adapters, the wall clock (\<open>clock w k\<close> is what the \<open>k\<close>-th reading of the clock
  returns, \<open>reads w\<close> counts the readings so far), the calls made and the console.
\<close>

record ('l, 'r, 'k) world =
  isOnline :: bool
  syncInProgress :: bool
  localStore :: 'l
  remoteStore :: 'r
  clock :: "nat \<Rightarrow> int"
  reads :: nat
  calls :: "'k list"
  console :: "logEntry list"

type_synonym ('u, 'c, 'q, 'n, 's, 'l, 'r) state =
  "('l, 'r, (('u, 'c, 'q, 'n, 's) localCall, ('u, 'c, 'q, 'n, 's) remoteCall) call) world"

text \<open>\<^verbatim>\<open>new Date()\<close>: one reading of the clock.\<close>

definition newDate :: "('l, 'r, 'k) world \<Rightarrow> int \<times> ('l, 'r, 'k) world" where
  "newDate w = (clock w (reads w), w\<lparr>reads := Suc (reads w)\<rparr>)"

definition consoleWrite ::
  "level \<Rightarrow> string \<Rightarrow> error option \<Rightarrow> ('l, 'r, 'k) world \<Rightarrow> ('l, 'r, 'k) world" where
  "consoleWrite lvl msg e w = w\<lparr>console := console w @ [(lvl, msg, e)]\<rparr>"

text \<open>A call of a writing method of \<^verbatim>\<open>dataService\<close>, and a call of the read \<^verbatim>\<open>getData\<close>.\<close>

definition callLocal ::
  "'a \<Rightarrow> (int \<Rightarrow> ('l, 'x) operation) \<Rightarrow> ('l, 'r, ('a, 'b) call) world
     \<Rightarrow> (error + 'x) \<times> ('l, 'r, ('a, 'b) call) world" where
  "callLocal c f w =
     (let (now, w1) = newDate w;
          (res, l') = f now (localStore w1)
      in (res, w1\<lparr>localStore := l', calls := calls w1 @ [Local c]\<rparr>))"

definition getData ::
  "('u, 'c, 'q, 'n, 's, 'l) dataService \<Rightarrow> ('u, 'c, 'q, 'n, 's, 'l, 'r) state
     \<Rightarrow> ('u, 'c, 'q, 'n, 's) SystemData \<times> ('u, 'c, 'q, 'n, 's, 'l, 'r) state" where
  "getData ds w = (ds_getData ds (localStore w), w\<lparr>calls := calls w @ [Local DS_getData]\<rparr>)"

text \<open>An awaited call of a method of \<^verbatim>\<open>firebaseService\<close>.\<close>

definition callRemote ::
  "'b \<Rightarrow> ('r, 'x) operation \<Rightarrow> ('l, 'r, ('a, 'b) call) world
     \<Rightarrow> (error + 'x) \<times> ('l, 'r, ('a, 'b) call) world" where
  "callRemote c f w =
     (let (res, r') = f (remoteStore w)
      in (res, w\<lparr>remoteStore := r', calls := calls w @ [Remote c]\<rparr>))"

definition remoteCalls :: "('l, 'r, ('a, 'b) call) world \<Rightarrow> ('a, 'b) call list" where
  "remoteCalls w = filter isRemote (calls w)"

section \<open>\<^verbatim>\<open>syncWithFirebase\<close>\<close>

definition syncWithFirebase ::
  "('u, 'c, 'q, 'n, 's, 'l) dataService \<Rightarrow> ('u, 'c, 'q, 'n, 's, 'r) firebaseService
     \<Rightarrow> ('u, 'c, 'q, 'n, 's, 'l, 'r) state \<Rightarrow> ('u, 'c, 'q, 'n, 's, 'l, 'r) state" where
  "syncWithFirebase ds fs w =
     (if \<not> isOnline w \<or> syncInProgress w then w
      else
        let w1 = w\<lparr>syncInProgress := True\<rparr>;
            (localData, w2) = getData ds w1;
            w6 =
              (case callRemote FS_syncWithFirebase (fs_syncWithFirebase fs) w2 of
                 (Inl e, w3) \<Rightarrow> consoleWrite Err ''Sync failed:'' (Some e) w3
               | (Inr firebaseData, w3) \<Rightarrow>
                   if isFirebaseEmpty firebaseData then
                     (let w4 = consoleWrite Log ''Migrating local data to Firebase...'' None w3
                      in case callRemote (FS_migrateLocalDataToFirebase localData)
                                (fs_migrateLocalDataToFirebase fs localData) w4 of
                           (Inl e, w5) \<Rightarrow> consoleWrite Err ''Sync failed:'' (Some e) w5
                         | (Inr u, w5) \<Rightarrow> w5)
                   else
                     (let w4 = consoleWrite Log ''Syncing Firebase data with local storage...'' None w3;
                          mergedData = mergeData localData firebaseData
                      in case callLocal (DS_saveData mergedData) (ds_saveData ds mergedData) w4 of
                           (Inl e, w5) \<Rightarrow> consoleWrite Err ''Sync failed:'' (Some e) w5
                         | (Inr u, w5) \<Rightarrow> w5))
        in w6\<lparr>syncInProgress := False\<rparr>)"

definition forcSync ::
  "('u, 'c, 'q, 'n, 's, 'l) dataService \<Rightarrow> ('u, 'c, 'q, 'n, 's, 'r) firebaseService
     \<Rightarrow> ('u, 'c, 'q, 'n, 's, 'l, 'r) state \<Rightarrow> ('u, 'c, 'q, 'n, 's, 'l, 'r) state" where
  "forcSync ds fs w = (if isOnline w then syncWithFirebase ds fs w else w)"

section \<open>The dual-write wrappers\<close>













section \<open>Sync passes between their suspension points\<close>

text \<open>
  \<^verbatim>\<open>syncWithFirebase\<close> is an \<^verbatim>\<open>async\<close> method: it runs up to its first \<^verbatim>\<open>await\<close>, and
  each later piece runs when the awaited remote call settles; other handlers may run
  in between. A suspended pass is what is left of it: it waits for the snapshot or for
  the migration, and holds its \<^verbatim>\<open>localData\<close>.
\<close>

datatype ('u, 'c, 'q, 'n, 's) pass =
    AwaitSnapshot "('u, 'c, 'q, 'n, 's) SystemData"
  | AwaitMigration "('u, 'c, 'q, 'n, 's) SystemData"

text \<open>The \<^verbatim>\<open>finally\<close> block.\<close>

definition finallyBlock :: "('l, 'r, 'k) world \<Rightarrow> ('l, 'r, 'k) world" where
  "finallyBlock w = w\<lparr>syncInProgress := False\<rparr>"

text \<open>From the call to the first \<^verbatim>\<open>await\<close>; \<open>None\<close> when the guard returns.\<close>

definition syncBegin ::
  "('u, 'c, 'q, 'n, 's, 'l) dataService \<Rightarrow> ('u, 'c, 'q, 'n, 's, 'l, 'r) state
     \<Rightarrow> ('u, 'c, 'q, 'n, 's) pass option \<times> ('u, 'c, 'q, 'n, 's, 'l, 'r) state" where
  "syncBegin ds w =
     (if \<not> isOnline w \<or> syncInProgress w then (None, w)
      else
        let w1 = w\<lparr>syncInProgress := True\<rparr>;
            (localData, w2) = getData ds w1
        in (Some (AwaitSnapshot localData), w2))"

text \<open>
  From the settling of the awaited call to the next \<^verbatim>\<open>await\<close> (\<open>Some\<close>) or to the end
  of the pass (\<open>None\<close>). The remote method acts on the remote store as it is when the
  call settles.
\<close>

fun syncResume ::
  "('u, 'c, 'q, 'n, 's, 'l) dataService \<Rightarrow> ('u, 'c, 'q, 'n, 's, 'r) firebaseService
     \<Rightarrow> ('u, 'c, 'q, 'n, 's) pass \<Rightarrow> ('u, 'c, 'q, 'n, 's, 'l, 'r) state
     \<Rightarrow> ('u, 'c, 'q, 'n, 's) pass option \<times> ('u, 'c, 'q, 'n, 's, 'l, 'r) state" where
  "syncResume ds fs (AwaitSnapshot localData) w =
     (case callRemote FS_syncWithFirebase (fs_syncWithFirebase fs) w of
        (Inl e, w3) \<Rightarrow> (None, finallyBlock (consoleWrite Err ''Sync failed:'' (Some e) w3))
      | (Inr firebaseData, w3) \<Rightarrow>
          if isFirebaseEmpty firebaseData then
            (Some (AwaitMigration localData),
             consoleWrite Log ''Migrating local data to Firebase...'' None w3)
          else
            (let w4 = consoleWrite Log ''Syncing Firebase data with local storage...'' None w3;
                 mergedData = mergeData localData firebaseData
             in case callLocal (DS_saveData mergedData) (ds_saveData ds mergedData) w4 of
                  (Inl e, w5) \<Rightarrow> (None, finallyBlock (consoleWrite Err ''Sync failed:'' (Some e) w5))
                | (Inr u, w5) \<Rightarrow> (None, finallyBlock w5)))"
| "syncResume ds fs (AwaitMigration localData) w =
     (case callRemote (FS_migrateLocalDataToFirebase localData)
             (fs_migrateLocalDataToFirebase fs localData) w of
        (Inl e, w5) \<Rightarrow> (None, finallyBlock (consoleWrite Err ''Sync failed:'' (Some e) w5))
      | (Inr u, w5) \<Rightarrow> (None, finallyBlock w5))"

text \<open>
  What can happen to the service: a call of \<^verbatim>\<open>syncWithFirebase\<close> (by \<^verbatim>\<open>initializeSync\<close>,
  by \<^verbatim>\<open>forcSync\<close> or by any other caller), the \<^verbatim>\<open>online\<close> and \<^verbatim>\<open>offline\<close> listeners of
  \<^verbatim>\<open>setupOnlineListener\<close>, the settling of the call awaited by the \<open>i\<close>-th suspended
  pass, and any other code (\<open>Other f\<close>), which may change everything but the two
  private fields: only \<^verbatim>\<open>syncWithFirebase\<close> and the listeners assign them.
\<close>

datatype ('l, 'r, 'k) event =
    Invoke
  | Online
  | Offline
  | Settle nat
  | Other "('l, 'r, 'k) world \<Rightarrow> ('l, 'r, 'k) world"

text \<open>A call of \<^verbatim>\<open>syncWithFirebase\<close> that the caller does not wait for.\<close>

definition invoke ::
  "('u, 'c, 'q, 'n, 's, 'l) dataService
     \<Rightarrow> ('u, 'c, 'q, 'n, 's, 'l, 'r) state \<times> ('u, 'c, 'q, 'n, 's) pass list
     \<Rightarrow> ('u, 'c, 'q, 'n, 's, 'l, 'r) state \<times> ('u, 'c, 'q, 'n, 's) pass list" where
  "invoke ds c =
     (case c of (w, ps) \<Rightarrow>
        (case syncBegin ds w of
           (None, w') \<Rightarrow> (w', ps)
         | (Some p, w') \<Rightarrow> (w', ps @ [p])))"

fun fire ::
  "('u, 'c, 'q, 'n, 's, 'l) dataService \<Rightarrow> ('u, 'c, 'q, 'n, 's, 'r) firebaseService
     \<Rightarrow> ('l, 'r, (('u, 'c, 'q, 'n, 's) localCall, ('u, 'c, 'q, 'n, 's) remoteCall) call) event
     \<Rightarrow> ('u, 'c, 'q, 'n, 's, 'l, 'r) state \<times> ('u, 'c, 'q, 'n, 's) pass list
     \<Rightarrow> ('u, 'c, 'q, 'n, 's, 'l, 'r) state \<times> ('u, 'c, 'q, 'n, 's) pass list" where
  "fire ds fs Invoke (w, ps) = invoke ds (w, ps)"
| "fire ds fs Online (w, ps) = invoke ds (w\<lparr>isOnline := True\<rparr>, ps)"
| "fire ds fs Offline (w, ps) = (w\<lparr>isOnline := False\<rparr>, ps)"
| "fire ds fs (Settle i) (w, ps) =
     (if i < length ps then
        (case syncResume ds fs (ps ! i) w of
           (None, w') \<Rightarrow> (w', take i ps @ drop (Suc i) ps)
         | (Some p, w') \<Rightarrow> (w', ps[i := p]))
      else (w, ps))"
| "fire ds fs (Other f) (w, ps) =
     ((f w)\<lparr>isOnline := isOnline w, syncInProgress := syncInProgress w\<rparr>, ps)"

definition run ::
  "('u, 'c, 'q, 'n, 's, 'l) dataService \<Rightarrow> ('u, 'c, 'q, 'n, 's, 'r) firebaseService
     \<Rightarrow> ('l, 'r, (('u, 'c, 'q, 'n, 's) localCall, ('u, 'c, 'q, 'n, 's) remoteCall) call) event list
     \<Rightarrow> ('u, 'c, 'q, 'n, 's, 'l, 'r) state \<times> ('u, 'c, 'q, 'n, 's) pass list
     \<Rightarrow> ('u, 'c, 'q, 'n, 's, 'l, 'r) state \<times> ('u, 'c, 'q, 'n, 's) pass list" where
  "run ds fs evs c = foldl (\<lambda>c ev. fire ds fs ev c) c evs"

section \<open>The adapters in memory\<close>

text \<open>
  Modelled from the spec: the closure of one session by \<^verbatim>\<open>dataService.endLoginSession\<close>
  (\<^verbatim>\<open>src/services/dataService.ts\<close> is not among the sources). Spec 8.8: \<^emph>\<open>given a session
  opened at time T0 and closed at T1, the recorded duration equals T1 - T0, \<^verbatim>\<open>isActive\<close>
  becomes false, \<^verbatim>\<open>logoutTime\<close> equals T1\<close>.
\<close>

definition closeSession :: "int \<Rightarrow> 's LoginSession_scheme \<Rightarrow> 's LoginSession_scheme" where
  "closeSession t1 s =
     s\<lparr>isActive := False, logoutTime := Some t1, sessionDuration := Some (t1 - loginTime s)\<rparr>"

text \<open>
  Modelled from the spec: \<^verbatim>\<open>dataService.endLoginSession\<close>, not among the sources. Spec 4.2:
  \<^emph>\<open>closes the session locally (duration computed as wall-clock delta between close time
  and the session's stored open time)\<close>. The sessions closed are the open sessions of the
  user; \<open>t1\<close> is the reading of the clock handed to the method.
\<close>

definition dataService_endLoginSession ::
  "string \<Rightarrow> int \<Rightarrow> ('u, 'c, 'q, 'n, 's) SystemData \<Rightarrow> ('u, 'c, 'q, 'n, 's) SystemData" where
  "dataService_endLoginSession uid t1 l =
     l\<lparr>loginSessions :=
         map (\<lambda>s. if userId s = uid \<and> isActive s then closeSession t1 s else s) (loginSessions l)\<rparr>"

text \<open>
  Modelled from the spec: the update of an entity by identifier in the Local Store
  Adapter (not among the sources): the entity with that identifier is replaced.
\<close>

definition replaceById :: "'a entity_scheme \<Rightarrow> 'a entity_scheme list \<Rightarrow> 'a entity_scheme list" where
  "replaceById e xs = map (\<lambda>x. if id' x = id' e then e else x) xs"

text \<open>
  Modelled from the spec: the Local Store Adapter of spec 4.4 and 6 (\<^verbatim>\<open>dataService\<close>, not
  among the sources), as a snapshot held in memory with create, update and delete by
  identifier; no method throws. \<open>markRead\<close> and \<open>newSession\<close> stand for what the adapter
  does to the fields of the absent type declarations: marking a notification as read,
  and building the session of a user who logs in at a given time.
\<close>

definition memoryDataService ::
  "('n entity_scheme \<Rightarrow> 'n entity_scheme) \<Rightarrow> ('u entity_scheme \<Rightarrow> int \<Rightarrow> 's LoginSession_scheme)
     \<Rightarrow> ('u, 'c, 'q, 'n, 's, ('u, 'c, 'q, 'n, 's) SystemData) dataService" where
  "memoryDataService markRead newSession =
     \<lparr> ds_getData = (\<lambda>l. l),
       ds_saveData = (\<lambda>d now l. (Inr (), d)),
       ds_addUser = (\<lambda>e now l. (Inr (), l\<lparr>users := users l @ [e]\<rparr>)),
       ds_updateUser = (\<lambda>e now l. (Inr (), l\<lparr>users := replaceById e (users l)\<rparr>)),
       ds_addComponent = (\<lambda>e now l. (Inr (), l\<lparr>components := components l @ [e]\<rparr>)),
       ds_updateComponent = (\<lambda>e now l. (Inr (), l\<lparr>components := replaceById e (components l)\<rparr>)),
       ds_deleteComponent =
         (\<lambda>i now l. (Inr (), l\<lparr>components := filter (\<lambda>x. id' x \<noteq> i) (components l)\<rparr>)),
       ds_addRequest = (\<lambda>e now l. (Inr (), l\<lparr>requests := requests l @ [e]\<rparr>)),
       ds_updateRequest = (\<lambda>e now l. (Inr (), l\<lparr>requests := replaceById e (requests l)\<rparr>)),
       ds_addNotification = (\<lambda>e now l. (Inr (), l\<lparr>notifications := notifications l @ [e]\<rparr>)),
       ds_markNotificationAsRead =
         (\<lambda>i now l. (Inr (),
            l\<lparr>notifications := map (\<lambda>x. if id' x = i then markRead x else x) (notifications l)\<rparr>)),
       ds_createLoginSession =
         (\<lambda>e now l. (Inr (newSession e now), l\<lparr>loginSessions := loginSessions l @ [newSession e now]\<rparr>)),
       ds_endLoginSession = (\<lambda>uid now l. (Inr (), dataService_endLoginSession uid now l)) \<rparr>"

text \<open>
  Modelled from the spec: what \<^verbatim>\<open>firebaseService.updateLoginSession\<close> (not among the
  sources) does to the session it updates: the three fields of the update are stored.
\<close>

definition applyClose :: "LoginSessionClose \<Rightarrow> 's LoginSession_scheme \<Rightarrow> 's LoginSession_scheme" where
  "applyClose u s =
     s\<lparr>isActive := isActive_new u, logoutTime := Some (logoutTime_new u),
       sessionDuration := Some (sessionDuration_new u)\<rparr>"

text \<open>
  Modelled from the spec: the Remote Store Adapter of spec 4.4 and 6 (\<^verbatim>\<open>firebaseService\<close>,
  not among the sources) when it is reachable, as a snapshot held in memory; no method
  throws.
\<close>

definition memoryFirebase ::
  "('n entity_scheme \<Rightarrow> 'n entity_scheme) \<Rightarrow> ('u, 'c, 'q, 'n, 's, ('u, 'c, 'q, 'n, 's) SystemData) firebaseService" where
  "memoryFirebase markRead =
     \<lparr> fs_syncWithFirebase = (\<lambda>r. (Inr r, r)),
       fs_migrateLocalDataToFirebase =
         (\<lambda>d r. (Inr (),
            \<lparr> users = users r @ users d, components = components r @ components d,
              requests = requests r @ requests d, notifications = notifications r @ notifications d,
              loginSessions = loginSessions r @ loginSessions d \<rparr>)),
       fs_createUser = (\<lambda>e r. (Inr (), r\<lparr>users := users r @ [e]\<rparr>)),
       fs_updateUser = (\<lambda>i e r. (Inr (), r\<lparr>users := map (\<lambda>x. if id' x = i then e else x) (users r)\<rparr>)),
       fs_createComponent = (\<lambda>e r. (Inr (), r\<lparr>components := components r @ [e]\<rparr>)),
       fs_updateComponent =
         (\<lambda>i e r. (Inr (), r\<lparr>components := map (\<lambda>x. if id' x = i then e else x) (components r)\<rparr>)),
       fs_deleteComponent =
         (\<lambda>i r. (Inr (), r\<lparr>components := filter (\<lambda>x. id' x \<noteq> i) (components r)\<rparr>)),
       fs_createRequest = (\<lambda>e r. (Inr (), r\<lparr>requests := requests r @ [e]\<rparr>)),
       fs_updateRequest =
         (\<lambda>i e r. (Inr (), r\<lparr>requests := map (\<lambda>x. if id' x = i then e else x) (requests r)\<rparr>)),
       fs_createNotification = (\<lambda>e r. (Inr (), r\<lparr>notifications := notifications r @ [e]\<rparr>)),
       fs_markNotificationAsRead =
         (\<lambda>i r. (Inr (),
            r\<lparr>notifications := map (\<lambda>x. if id' x = i then markRead x else x) (notifications r)\<rparr>)),
       fs_createLoginSession = (\<lambda>e r. (Inr (), r\<lparr>loginSessions := loginSessions r @ [e]\<rparr>)),
       fs_getAllLoginSessions = (\<lambda>r. (Inr (loginSessions r), r)),
       fs_updateLoginSession =
         (\<lambda>i u r. (Inr (),
            r\<lparr>loginSessions := map (\<lambda>x. if id' x = i then applyClose u x else x) (loginSessions r)\<rparr>)) \<rparr>"

text \<open>
  Modelled from the spec: a method of the Remote Store Adapter when the remote store
  is unreachable (spec 7 b): it throws and the store stays as it is.
\<close>

definition unreachable :: "('r, 'x) operation" where
  "unreachable r = (Inl (Error ''unavailable''), r)"

text \<open>Modelled from the spec: the Remote Store Adapter when every method is unreachable.\<close>

definition unreachableFirebase :: "('u, 'c, 'q, 'n, 's, 'r) firebaseService" where
  "unreachableFirebase =
     \<lparr> fs_syncWithFirebase = unreachable,
       fs_migrateLocalDataToFirebase = (\<lambda>d. unreachable),
       fs_createUser = (\<lambda>e. unreachable),
       fs_updateUser = (\<lambda>i e. unreachable),
       fs_createComponent = (\<lambda>e. unreachable),
       fs_updateComponent = (\<lambda>i e. unreachable),
       fs_deleteComponent = (\<lambda>i. unreachable),
       fs_createRequest = (\<lambda>e. unreachable),
       fs_updateRequest = (\<lambda>i e. unreachable),
       fs_createNotification = (\<lambda>e. unreachable),
       fs_markNotificationAsRead = (\<lambda>i. unreachable),
       fs_createLoginSession = (\<lambda>e. unreachable),
       fs_getAllLoginSessions = unreachable,
       fs_updateLoginSession = (\<lambda>i u. unreachable) \<rparr>"

text \<open>
  Concrete data. The further fields of a user, a component, a request and a
  notification are one string here (a name or a status); a session has no further field.
\<close>

definition item :: "string \<Rightarrow> string \<Rightarrow> string entity_scheme" where
  "item i x = \<lparr> id' = i, \<dots> = x \<rparr>"

definition session :: "string \<Rightarrow> string \<Rightarrow> bool \<Rightarrow> int \<Rightarrow> LoginSession" where
  "session i uid active t0 =
     \<lparr> id' = i, userId = uid, isActive = active, loginTime = t0,
       logoutTime = None, sessionDuration = None \<rparr>"

definition emptyData :: "(string, string, string, string, unit) SystemData" where
  "emptyData = \<lparr> users = [], components = [], requests = [], notifications = [], loginSessions = [] \<rparr>"

definition memDS :: "(string, string, string, string, unit,
     (string, string, string, string, unit) SystemData) dataService" where
  "memDS = memoryDataService (\<lambda>n. n\<lparr>entity.more := ''read''\<rparr>) (\<lambda>u t. session (''session-'' @ id' u) (id' u) True t)"

definition memFS :: "(string, string, string, string, unit,
     (string, string, string, string, unit) SystemData) firebaseService" where
  "memFS = memoryFirebase (\<lambda>n. n\<lparr>entity.more := ''read''\<rparr>)"

definition downFS :: "(string, string, string, string, unit,
     (string, string, string, string, unit) SystemData) firebaseService" where
  "downFS = unreachableFirebase"

text \<open>The service as constructed (\<^verbatim>\<open>syncInProgress = false\<close>), on given stores, with a clock
  that shows \<open>1000 + 10 * k\<close> at its \<open>k\<close>-th reading.\<close>

definition world0 ::
  "bool \<Rightarrow> (string, string, string, string, unit) SystemData
     \<Rightarrow> (string, string, string, string, unit) SystemData
     \<Rightarrow> (string, string, string, string, unit,
          (string, string, string, string, unit) SystemData,
          (string, string, string, string, unit) SystemData) state" where
  "world0 online l r =
     \<lparr> isOnline = online, syncInProgress = False, localStore = l, remoteStore = r,
       clock = (\<lambda>k. 1000 + 10 * int k), reads = 0, calls = [], console = [] \<rparr>"

definition oneUser :: "(string, string, string, string, unit) SystemData" where
  "oneUser = emptyData\<lparr>users := [item ''u1'' ''alice'']\<rparr>"

text \<open>Spec 8.9: request 1 is pending locally; the remote store has it approved, and
  holds a request 2.\<close>

definition local9 :: "(string, string, string, string, unit) SystemData" where
  "local9 = emptyData\<lparr>requests := [item ''1'' ''pending'']\<rparr>"

definition remote9 :: "(string, string, string, string, unit) SystemData" where
  "remote9 = emptyData\<lparr>requests := [item ''1'' ''approved'', item ''2'' ''pending'']\<rparr>"

definition local9b :: "(string, string, string, string, unit) SystemData" where
  "local9b = emptyData\<lparr>requests := [item ''1'' ''pending'', item ''3'' ''new'']\<rparr>"


text \<open>A remote snapshot whose only entity is a notification.\<close>

definition notifOnly :: "(string, string, string, string, unit) SystemData" where
  "notifOnly = emptyData\<lparr>notifications := [item ''n1'' ''unread'']\<rparr>"




section \<open>The properties claimed\<close>

text \<open>
  Remote precedence in one collection: for a local entity whose identifier occurs in
  the remote collection, the merged entities with that identifier are the remote ones,
  and the local entity is not in the result unless it is itself a remote entity.
\<close>

definition remotePrecedence ::
  "'a entity_scheme list \<Rightarrow> 'a entity_scheme list \<Rightarrow> 'a entity_scheme list \<Rightarrow> bool" where
  "remotePrecedence local remote merged \<longleftrightarrow>
     (\<forall>e \<in> set local. id' e \<in> id' ` set remote \<longrightarrow>
        filter (\<lambda>x. id' x = id' e) merged = filter (\<lambda>x. id' x = id' e) remote
        \<and> (e \<notin> set remote \<longrightarrow> e \<notin> set merged))"



text \<open>The invariant of a snapshot (spec 3): identifiers are unique in each collection.\<close>

definition uniqueIds :: "('u, 'c, 'q, 'n, 's) SystemData \<Rightarrow> bool" where
  "uniqueIds d \<longleftrightarrow>
     distinct (map id' (users d)) \<and> distinct (map id' (components d))
     \<and> distinct (map id' (requests d)) \<and> distinct (map id' (notifications d))
     \<and> distinct (map id' (loginSessions d))"

text \<open>Spec 4.3, in its words: the remote collection verbatim, then every local entity
  whose identifier is absent from the remote collection.\<close>

definition remoteThenLocalOnly ::
  "'a entity_scheme list \<Rightarrow> 'a entity_scheme list \<Rightarrow> 'a entity_scheme list" where
  "remoteThenLocalOnly local remote = remote @ filter (\<lambda>e. id' e \<notin> id' ` set remote) local"

text \<open>All five collections of a snapshot are empty.\<close>

definition noEntities :: "('u, 'c, 'q, 'n, 's) SystemData \<Rightarrow> bool" where
  "noEntities d \<longleftrightarrow>
     users d = [] \<and> components d = [] \<and> requests d = [] \<and> notifications d = []
     \<and> loginSessions d = []"



section \<open>Facts about \<^verbatim>\<open>mergeArrays\<close>\<close>

lemma findIndexFrom_ge: "0 \<le> i \<Longrightarrow> (\<exists>x\<in>set xs. p x) \<Longrightarrow> i \<le> findIndexFrom p xs i"
proof (induction xs arbitrary: i)
  case Nil
  then show ?case by simp
next
  case (Cons a xs)
  show ?case
  proof (cases "p a")
    case True
    then show ?thesis by simp
  next
    case False
    with Cons.prems have "\<exists>x\<in>set xs. p x" by auto
    with Cons.IH [of "i + 1"] Cons.prems(1) have "i + 1 \<le> findIndexFrom p xs (i + 1)" by simp
    with False show ?thesis by simp
  qed
qed

lemma findIndexFrom_absent: "(\<forall>x\<in>set xs. \<not> p x) \<Longrightarrow> findIndexFrom p xs i = - 1"
  by (induction xs arbitrary: i) auto

lemma findIndex_absent_iff: "(findIndex p xs = - 1) = (\<forall>x\<in>set xs. \<not> p x)"
proof
  assume "findIndex p xs = - 1"
  show "\<forall>x\<in>set xs. \<not> p x"
  proof (rule ccontr)
    assume "\<not> (\<forall>x\<in>set xs. \<not> p x)"
    then have "\<exists>x\<in>set xs. p x" by simp
    then have "0 \<le> findIndexFrom p xs 0" by (rule findIndexFrom_ge [rotated]) simp
    with \<open>findIndex p xs = - 1\<close> show False by (simp add: findIndex_def)
  qed
next
  assume "\<forall>x\<in>set xs. \<not> p x"
  then show "findIndex p xs = - 1" by (simp add: findIndex_def findIndexFrom_absent)
qed

lemma mergeItem_eq:
  "mergeItem f merged x = (if f x \<in> f ` set merged then merged else merged @ [x])"
proof -
  have "(\<forall>y\<in>set merged. f y \<noteq> f x) = (f x \<notin> f ` set merged)"
    by (metis image_iff)
  then show ?thesis
    by (simp add: mergeItem_def findIndex_absent_iff)
qed

lemma mergeArrays_Nil: "mergeArrays [] r f = r"
  by (simp add: mergeArrays_def)

lemma mergeArrays_Cons: "mergeArrays (x # l) r f = mergeArrays l (mergeItem f r x) f"
  by (simp add: mergeArrays_def)

lemma mergeArrays_filter_remote:
  "i \<in> f ` set r \<Longrightarrow> filter (\<lambda>x. f x = i) (mergeArrays l r f) = filter (\<lambda>x. f x = i) r"
proof (induction l arbitrary: r)
  case Nil
  show ?case by (simp add: mergeArrays_Nil)
next
  case (Cons x l)
  have in': "i \<in> f ` set (mergeItem f r x)" using Cons.prems by (auto simp: mergeItem_eq)
  have "filter (\<lambda>x. f x = i) (mergeItem f r x) = filter (\<lambda>x. f x = i) r"
    using Cons.prems by (auto simp: mergeItem_eq)
  with Cons.IH [OF in'] show ?case by (simp add: mergeArrays_Cons)
qed

lemma mergeArrays_prefix: "\<exists>ys. mergeArrays l r f = r @ ys \<and> set ys \<subseteq> set l"
proof (induction l arbitrary: r)
  case Nil
  show ?case by (simp add: mergeArrays_Nil)
next
  case (Cons x l)
  obtain ys where ys: "mergeArrays l (mergeItem f r x) f = mergeItem f r x @ ys" "set ys \<subseteq> set l"
    using Cons.IH by blast
  show ?case
  proof (cases "f x \<in> f ` set r")
    case True
    with ys show ?thesis by (auto simp: mergeArrays_Cons mergeItem_eq)
  next
    case False
    with ys have "mergeArrays (x # l) r f = r @ (x # ys)" by (simp add: mergeArrays_Cons mergeItem_eq)
    moreover have "set (x # ys) \<subseteq> set (x # l)" using ys by auto
    ultimately show ?thesis by blast
  qed
qed

lemma mergeArrays_remote_subset: "set r \<subseteq> set (mergeArrays l r f)"
  using mergeArrays_prefix [of l r f] by auto

lemma mergeArrays_ids_local: "f ` set l \<subseteq> f ` set (mergeArrays l r f)"
proof (induction l arbitrary: r)
  case Nil
  show ?case by simp
next
  case (Cons x l)
  have "f x \<in> f ` set (mergeItem f r x)" by (auto simp: mergeItem_eq)
  also have "\<dots> \<subseteq> f ` set (mergeArrays l (mergeItem f r x) f)"
    using mergeArrays_remote_subset by (rule image_mono)
  finally have "f x \<in> f ` set (mergeArrays (x # l) r f)" by (simp add: mergeArrays_Cons)
  moreover have "f ` set l \<subseteq> f ` set (mergeArrays (x # l) r f)"
    using Cons.IH [of "mergeItem f r x"] by (simp add: mergeArrays_Cons)
  ultimately show ?case by simp
qed

lemma mergeArrays_covered: "f ` set l \<subseteq> f ` set m \<Longrightarrow> mergeArrays l m f = m"
  by (induction l) (auto simp: mergeArrays_Nil mergeArrays_Cons mergeItem_eq)

lemma mergeArrays_idem: "mergeArrays a (mergeArrays a b f) f = mergeArrays a b f"
  by (rule mergeArrays_covered) (rule mergeArrays_ids_local)

lemma mergeArrays_distinct_local:
  "distinct (map f l) \<Longrightarrow> mergeArrays l r f = r @ filter (\<lambda>e. f e \<notin> f ` set r) l"
proof (induction l arbitrary: r)
  case Nil
  show ?case by (simp add: mergeArrays_Nil)
next
  case (Cons x l)
  then have d: "distinct (map f l)" and nx: "f x \<notin> f ` set l" by auto
  show ?case
  proof (cases "f x \<in> f ` set r")
    case True
    with Cons.IH [OF d, of r] show ?thesis by (simp add: mergeArrays_Cons mergeItem_eq)
  next
    case False
    have "filter (\<lambda>e. f e \<notin> f ` set (r @ [x])) l = filter (\<lambda>e. f e \<notin> f ` set r) l"
      using nx by (intro filter_cong) (auto simp: image_iff)
    with Cons.IH [OF d, of "r @ [x]"] False show ?thesis
      by (simp add: mergeArrays_Cons mergeItem_eq)
  qed
qed

lemma distinct_append_localOnly:
  "distinct (map f r) \<Longrightarrow> distinct (map f l)
     \<Longrightarrow> distinct (map f (r @ filter (\<lambda>e. f e \<notin> f ` set r) l))"
  by (auto simp: distinct_map_filter image_iff)




section \<open>Claims about the reconciliation\<close>

lemma mergeArrays_remotePrecedence: "remotePrecedence l r (mergeArrays l r id')"
  unfolding remotePrecedence_def
proof (intro ballI impI conjI)
  fix e
  assume e: "e \<in> set l" and i: "id' e \<in> id' ` set r"
  show eq: "filter (\<lambda>x. id' x = id' e) (mergeArrays l r id') = filter (\<lambda>x. id' x = id' e) r"
    using i by (rule mergeArrays_filter_remote)
  assume "e \<notin> set r"
  then have "e \<notin> set (filter (\<lambda>x. id' x = id' e) r)" by simp
  with eq have "e \<notin> set (filter (\<lambda>x. id' x = id' e) (mergeArrays l r id'))" by simp
  then show "e \<notin> set (mergeArrays l r id')" by simp
qed


lemma mergeArrays_unique:
  "distinct (map id' l) \<Longrightarrow> mergeArrays l r id' = remoteThenLocalOnly l r"
  by (simp add: remoteThenLocalOnly_def mergeArrays_distinct_local)

lemma distinct_remoteThenLocalOnly:
  "distinct (map id' l) \<Longrightarrow> distinct (map id' r) \<Longrightarrow> distinct (map id' (remoteThenLocalOnly l r))"
  unfolding remoteThenLocalOnly_def by (rule distinct_append_localOnly)

text \<open>
  C3 (merge precedence). In each of the five collections of \<open>mergeData l r\<close>, for every
  local entity whose identifier also occurs in the remote collection, the entities with
  that identifier are exactly the remote ones, and the local version is not in the
  result (unless it is the remote version).
\<close>

theorem mergeData_remote_precedence:
  "remotePrecedence (users l) (users r) (users (mergeData l r))
   \<and> remotePrecedence (components l) (components r) (components (mergeData l r))
   \<and> remotePrecedence (requests l) (requests r) (requests (mergeData l r))
   \<and> remotePrecedence (notifications l) (notifications r) (notifications (mergeData l r))
   \<and> remotePrecedence (loginSessions l) (loginSessions r) (loginSessions (mergeData l r))"
  by (simp add: mergeData_def mergeArrays_remotePrecedence)

theorem mergeData_remote_precedence_witness:
  "item ''1'' ''pending'' \<in> set (requests local9)
   \<and> id' (item ''1'' ''pending'') \<in> id' ` set (requests remote9)
   \<and> filter (\<lambda>x. id' x = ''1'') (requests (mergeData local9 remote9)) = [item ''1'' ''approved'']
   \<and> item ''1'' ''pending'' \<notin> set (requests (mergeData local9 remote9))"
  using mergeData_remote_precedence [of local9 remote9]
  by (simp add: remotePrecedence_def local9_def remote9_def emptyData_def item_def)




text \<open>
  C5 (merge idempotence). \<open>mergeData\<close> is a function of its two arguments, and merging
  the first argument into the result again changes nothing.
\<close>

theorem mergeData_idempotent: "mergeData a (mergeData a b) = mergeData a b"
  by (simp add: mergeData_def mergeArrays_idem)

text \<open>
  C10 (merge preserves the identity invariant). When the identifiers are pairwise
  distinct in every collection of both snapshots, they are so in every collection of
  the result, and each collection of the result is the remote collection followed, in
  local order, by the local entities whose identifier the remote collection lacks.
\<close>

theorem mergeData_uniqueIds:
  assumes "uniqueIds l" and "uniqueIds r"
  shows "uniqueIds (mergeData l r)
    \<and> users (mergeData l r) = remoteThenLocalOnly (users l) (users r)
    \<and> components (mergeData l r) = remoteThenLocalOnly (components l) (components r)
    \<and> requests (mergeData l r) = remoteThenLocalOnly (requests l) (requests r)
    \<and> notifications (mergeData l r) = remoteThenLocalOnly (notifications l) (notifications r)
    \<and> loginSessions (mergeData l r) = remoteThenLocalOnly (loginSessions l) (loginSessions r)"
  using assms
  by (simp add: uniqueIds_def mergeData_def mergeArrays_unique distinct_remoteThenLocalOnly)

theorem mergeData_uniqueIds_witness:
  "uniqueIds local9b \<and> uniqueIds remote9
   \<and> uniqueIds (mergeData local9b remote9)
   \<and> requests (mergeData local9b remote9)
       = [item ''1'' ''approved'', item ''2'' ''pending'', item ''3'' ''new'']"
proof -
  have l: "uniqueIds local9b" and r: "uniqueIds remote9"
    by (simp_all add: uniqueIds_def local9b_def remote9_def emptyData_def item_def)
  from mergeData_uniqueIds [OF l r] l r show ?thesis
    by (simp add: remoteThenLocalOnly_def local9b_def remote9_def emptyData_def item_def)
qed

section \<open>Facts about the calls of the collaborators\<close>

lemma callRemote_alt:
  "callRemote c f w =
     (fst (f (remoteStore w)),
      w\<lparr>remoteStore := snd (f (remoteStore w)), calls := calls w @ [Remote c]\<rparr>)"
  by (simp add: callRemote_def case_prod_beta)

lemma callLocal_alt:
  "callLocal c f w =
     (fst (f (clock w (reads w)) (localStore w)),
      w\<lparr>reads := Suc (reads w), localStore := snd (f (clock w (reads w)) (localStore w)),
        calls := calls w @ [Local c]\<rparr>)"
  by (simp add: callLocal_def newDate_def case_prod_beta)

lemma getData_alt:
  "getData ds w = (ds_getData ds (localStore w), w\<lparr>calls := calls w @ [Local DS_getData]\<rparr>)"
  by (simp add: getData_def)

lemmas call_simps = callRemote_alt callLocal_alt getData_alt consoleWrite_def

section \<open>Claims about the sync pass\<close>

lemma noEntities_isFirebaseEmpty: "noEntities d \<Longrightarrow> isFirebaseEmpty d"
  by (simp add: noEntities_def isFirebaseEmpty_def)

lemma syncWithFirebase_guard: "\<not> isOnline w \<or> syncInProgress w \<Longrightarrow> syncWithFirebase ds fs w = w"
  by (auto simp: syncWithFirebase_def)

lemma syncWithFirebase_fetch_fails:
  assumes "isOnline w" "\<not> syncInProgress w" "fst (fs_syncWithFirebase fs (remoteStore w)) = Inl e"
  shows "syncWithFirebase ds fs w =
     w\<lparr>remoteStore := snd (fs_syncWithFirebase fs (remoteStore w)),
       calls := calls w @ [Local DS_getData, Remote FS_syncWithFirebase],
       console := console w @ [(Err, ''Sync failed:'', Some e)]\<rparr>"
  using assms by (simp add: syncWithFirebase_def call_simps)

lemma syncWithFirebase_resets:
  "isOnline w \<Longrightarrow> \<not> syncInProgress w \<Longrightarrow> \<not> syncInProgress (syncWithFirebase ds fs w)"
  by (simp add: syncWithFirebase_def Let_def case_prod_beta)

lemma syncResume_flag:
  "syncInProgress (snd (syncResume ds fs p w)) =
     (if fst (syncResume ds fs p w) = None then False else syncInProgress w)"
  by (cases p) (simp_all add: call_simps finallyBlock_def Let_def split: sum.splits)

lemma syncBegin_flag:
  "syncInProgress (snd (syncBegin ds w)) = (if fst (syncBegin ds w) = None then syncInProgress w else True)"
  by (simp add: syncBegin_def call_simps)

lemma syncBegin_started: "(fst (syncBegin ds w) \<noteq> None) = (isOnline w \<and> \<not> syncInProgress w)"
  by (simp add: syncBegin_def call_simps)

text \<open>A pass that no other handler interrupts is the pass run piece by piece.\<close>

lemma syncWithFirebase_pieces:
  "syncWithFirebase ds fs w =
     (case syncBegin ds w of
        (None, w') \<Rightarrow> w'
      | (Some p, w1) \<Rightarrow>
          (case syncResume ds fs p w1 of
             (None, w') \<Rightarrow> w'
           | (Some p', w2) \<Rightarrow> snd (syncResume ds fs p' w2)))"
  by (simp add: syncWithFirebase_def syncBegin_def call_simps finallyBlock_def Let_def
      split: sum.splits)


section \<open>At most one pass\<close>

lemma fire_inv:
  assumes "length (snd c) = (if syncInProgress (fst c) then 1 else 0)"
  shows "length (snd (fire ds fs ev c)) = (if syncInProgress (fst (fire ds fs ev c)) then 1 else 0)"
proof -
  obtain w ps where c: "c = (w, ps)" by (cases c)
  have inv: "length ps = (if syncInProgress w then 1 else 0)" using assms c by simp
  have started: "length (snd (invoke ds (w', ps))) = (if syncInProgress (fst (invoke ds (w', ps))) then 1 else 0)"
    if "syncInProgress w' = syncInProgress w" for w'
    using inv that by (auto simp: invoke_def syncBegin_def call_simps split: if_splits)
  show ?thesis
  proof (cases ev)
    case Invoke
    with started [of w] c show ?thesis by simp
  next
    case Online
    with started [of "w\<lparr>isOnline := True\<rparr>"] c show ?thesis by simp
  next
    case Offline
    with inv c show ?thesis by simp
  next
    case (Settle i)
    show ?thesis
    proof (cases "i < length ps")
      case False
      with inv c Settle show ?thesis by simp
    next
      case True
      with inv have busy: "syncInProgress w" and one: "length ps = 1" and i: "i = 0"
        by (auto split: if_splits)
      obtain r w' where res: "syncResume ds fs (ps ! 0) w = (r, w')"
        by (cases "syncResume ds fs (ps ! 0) w")
      from syncResume_flag [of ds fs "ps ! 0" w] res busy
      have flag: "syncInProgress w' = (r \<noteq> None)" by auto
      from one res flag c Settle i show ?thesis
        by (cases r) simp_all
    qed
  next
    case (Other f)
    with inv c show ?thesis by simp
  qed
qed

lemma run_inv:
  "length (snd c) = (if syncInProgress (fst c) then 1 else 0) \<Longrightarrow>
     length (snd (run ds fs evs c)) = (if syncInProgress (fst (run ds fs evs c)) then 1 else 0)"
  unfolding run_def
proof (induction evs arbitrary: c)
  case Nil
  then show ?case by simp
next
  case (Cons ev evs)
  from Cons.prems have "length (snd (fire ds fs ev c)) = (if syncInProgress (fst (fire ds fs ev c)) then 1 else 0)"
    by (rule fire_inv)
  from Cons.IH [OF this] show ?case by simp
qed

text \<open>
  C7 (offline guard, mutual exclusion). A call of \<^verbatim>\<open>syncWithFirebase\<close> (or of \<^verbatim>\<open>forcSync\<close>)
  while the service is offline or a pass is in progress returns the state as it is: no
  call is recorded, no store changes, and the suspended passes stay as they are. From a
  service whose flag is clear and that has no suspended pass, whatever happens (calls,
  connectivity events, settling of awaited calls, other code), at most one pass is
  suspended, and one is exactly when \<^verbatim>\<open>syncInProgress\<close> is set.
\<close>

theorem sync_guard_one_pass:
  "(\<not> isOnline w \<or> syncInProgress w \<longrightarrow>
      syncWithFirebase ds fs w = w \<and> forcSync ds fs w = w \<and> fire ds fs Invoke (w, ps) = (w, ps))
   \<and> (\<not> syncInProgress w0 \<longrightarrow>
        length (snd (run ds fs evs (w0, []))) \<le> 1
        \<and> (syncInProgress (fst (run ds fs evs (w0, []))) \<longleftrightarrow> snd (run ds fs evs (w0, [])) \<noteq> []))"
proof (intro conjI impI)
  assume g: "\<not> isOnline w \<or> syncInProgress w"
  then show s: "syncWithFirebase ds fs w = w" by (rule syncWithFirebase_guard)
  then show "forcSync ds fs w = w" by (simp add: forcSync_def)
  from g show "fire ds fs Invoke (w, ps) = (w, ps)" by (auto simp: invoke_def syncBegin_def)
next
  assume "\<not> syncInProgress w0"
  then have "length (snd (w0, [])) = (if syncInProgress (fst (w0, [])) then 1 else 0)" by simp
  then have inv: "length (snd (run ds fs evs (w0, []))) =
      (if syncInProgress (fst (run ds fs evs (w0, []))) then 1 else 0)"
    by (rule run_inv)
  from inv show "length (snd (run ds fs evs (w0, []))) \<le> 1" by (simp split: if_splits)
  from inv show "syncInProgress (fst (run ds fs evs (w0, []))) \<longleftrightarrow> snd (run ds fs evs (w0, [])) \<noteq> []"
    by (auto split: if_splits)
qed

theorem sync_guard_one_pass_witness:
  "\<not> isOnline (world0 False oneUser remote9)
   \<and> syncWithFirebase memDS memFS (world0 False oneUser remote9) = world0 False oneUser remote9
   \<and> \<not> syncInProgress (world0 True oneUser remote9)
   \<and> snd (run memDS memFS [Invoke, Invoke] (world0 True oneUser remote9, [])) = [AwaitSnapshot oneUser]
   \<and> syncInProgress (fst (run memDS memFS [Invoke, Invoke] (world0 True oneUser remote9, [])))"
  using sync_guard_one_pass [of "world0 False oneUser remote9" memDS memFS "[]"
      "world0 True oneUser remote9" "[Invoke, Invoke]"]
  by (simp add: world0_def run_def invoke_def syncBegin_def getData_def memDS_def memoryDataService_def)


section \<open>Claims about the paths of a pass\<close>

text \<open>
  C6 (failure of the fetch, reset of the flag). When the fetch of the remote snapshot
  throws, the pass logs the exception with \<^verbatim>\<open>console.error\<close>, makes no call but the read
  of the local snapshot and the fetch, leaves the local store as it was and clears
  \<^verbatim>\<open>syncInProgress\<close>. Every pass that starts ends with the flag clear: the uninterrupted
  pass as a whole, and every last piece of a pass, on whichever path it ends (fetch
  failure, migration done or failed, merge saved or save failed).
\<close>

theorem sync_fetch_failure_resets:
  "(isOnline w \<and> \<not> syncInProgress w \<and> fst (fs_syncWithFirebase fs (remoteStore w)) = Inl e \<longrightarrow>
      localStore (syncWithFirebase ds fs w) = localStore w
      \<and> console (syncWithFirebase ds fs w) = console w @ [(Err, ''Sync failed:'', Some e)]
      \<and> calls (syncWithFirebase ds fs w) = calls w @ [Local DS_getData, Remote FS_syncWithFirebase]
      \<and> \<not> syncInProgress (syncWithFirebase ds fs w))
   \<and> (isOnline w \<and> \<not> syncInProgress w \<longrightarrow> \<not> syncInProgress (syncWithFirebase ds fs w))
   \<and> (fst (syncResume ds fs p w1) = None \<longrightarrow> \<not> syncInProgress (snd (syncResume ds fs p w1)))"
proof (intro conjI impI)
  assume a: "isOnline w \<and> \<not> syncInProgress w \<and> fst (fs_syncWithFirebase fs (remoteStore w)) = Inl e"
  then have eq: "syncWithFirebase ds fs w =
     w\<lparr>remoteStore := snd (fs_syncWithFirebase fs (remoteStore w)),
       calls := calls w @ [Local DS_getData, Remote FS_syncWithFirebase],
       console := console w @ [(Err, ''Sync failed:'', Some e)]\<rparr>"
    by (intro syncWithFirebase_fetch_fails) simp_all
  show "localStore (syncWithFirebase ds fs w) = localStore w" by (simp add: eq)
  show "console (syncWithFirebase ds fs w) = console w @ [(Err, ''Sync failed:'', Some e)]"
    by (simp add: eq)
  show "calls (syncWithFirebase ds fs w) = calls w @ [Local DS_getData, Remote FS_syncWithFirebase]"
    by (simp add: eq)
  show "\<not> syncInProgress (syncWithFirebase ds fs w)" using a by (simp add: eq)
next
  assume "isOnline w \<and> \<not> syncInProgress w"
  then show "\<not> syncInProgress (syncWithFirebase ds fs w)" by (simp add: syncWithFirebase_resets)
next
  assume "fst (syncResume ds fs p w1) = None"
  then show "\<not> syncInProgress (snd (syncResume ds fs p w1))" by (simp add: syncResume_flag)
qed

theorem sync_fetch_failure_resets_witness:
  "isOnline (world0 True oneUser remote9) \<and> \<not> syncInProgress (world0 True oneUser remote9)
   \<and> fst (fs_syncWithFirebase downFS (remoteStore (world0 True oneUser remote9))) = Inl (Error ''unavailable'')
   \<and> localStore (syncWithFirebase memDS downFS (world0 True oneUser remote9)) = oneUser
   \<and> console (syncWithFirebase memDS downFS (world0 True oneUser remote9))
       = [(Err, ''Sync failed:'', Some (Error ''unavailable''))]
   \<and> \<not> syncInProgress (syncWithFirebase memDS downFS (world0 True oneUser remote9))
   \<and> fst (syncResume memDS downFS (AwaitMigration oneUser)
          ((world0 True oneUser emptyData)\<lparr>syncInProgress := True\<rparr>)) = None
   \<and> \<not> syncInProgress (snd (syncResume memDS downFS (AwaitMigration oneUser)
          ((world0 True oneUser emptyData)\<lparr>syncInProgress := True\<rparr>)))"
  using sync_fetch_failure_resets [of "world0 True oneUser remote9" downFS "Error ''unavailable''" memDS
      "AwaitMigration oneUser" "(world0 True oneUser emptyData)\<lparr>syncInProgress := True\<rparr>"]
  by (simp add: world0_def downFS_def unreachableFirebase_def unreachable_def call_simps
      finallyBlock_def)

text \<open>
  C9 (the migration path writes nothing locally). In a pass that starts and finds the
  remote snapshot empty (\<^verbatim>\<open>isFirebaseEmpty\<close>, which holds in particular when all five
  collections are empty), the calls are the read of the local snapshot, the fetch and
  the migration of that local snapshot: no method of the local adapter that writes is
  called, and the local store and the snapshot read from it are the same after the pass.
\<close>

theorem sync_migration_keeps_local:
  "isOnline w \<and> \<not> syncInProgress w
   \<and> fst (fs_syncWithFirebase fs (remoteStore w)) = Inr firebaseData
   \<and> (isFirebaseEmpty firebaseData \<or> noEntities firebaseData) \<longrightarrow>
     localStore (syncWithFirebase ds fs w) = localStore w
     \<and> ds_getData ds (localStore (syncWithFirebase ds fs w)) = ds_getData ds (localStore w)
     \<and> calls (syncWithFirebase ds fs w) =
         calls w @ [Local DS_getData, Remote FS_syncWithFirebase,
                    Remote (FS_migrateLocalDataToFirebase (ds_getData ds (localStore w)))]"
proof (intro impI)
  assume a: "isOnline w \<and> \<not> syncInProgress w
   \<and> fst (fs_syncWithFirebase fs (remoteStore w)) = Inr firebaseData
   \<and> (isFirebaseEmpty firebaseData \<or> noEntities firebaseData)"
  then have empty: "isFirebaseEmpty firebaseData" using noEntities_isFirebaseEmpty by blast
  have l: "localStore (syncWithFirebase ds fs w) = localStore w"
    using a empty by (simp add: syncWithFirebase_def call_simps Let_def split: sum.splits)
  have c: "calls (syncWithFirebase ds fs w) =
         calls w @ [Local DS_getData, Remote FS_syncWithFirebase,
                    Remote (FS_migrateLocalDataToFirebase (ds_getData ds (localStore w)))]"
    using a empty by (simp add: syncWithFirebase_def call_simps Let_def split: sum.splits)
  from l c show "localStore (syncWithFirebase ds fs w) = localStore w
     \<and> ds_getData ds (localStore (syncWithFirebase ds fs w)) = ds_getData ds (localStore w)
     \<and> calls (syncWithFirebase ds fs w) =
         calls w @ [Local DS_getData, Remote FS_syncWithFirebase,
                    Remote (FS_migrateLocalDataToFirebase (ds_getData ds (localStore w)))]"
    by simp
qed

theorem sync_migration_keeps_local_witness:
  "isOnline (world0 True oneUser emptyData) \<and> \<not> syncInProgress (world0 True oneUser emptyData)
   \<and> fst (fs_syncWithFirebase memFS (remoteStore (world0 True oneUser emptyData))) = Inr emptyData
   \<and> noEntities emptyData
   \<and> localStore (syncWithFirebase memDS memFS (world0 True oneUser emptyData)) = oneUser
   \<and> calls (syncWithFirebase memDS memFS (world0 True oneUser emptyData)) =
       [Local DS_getData, Remote FS_syncWithFirebase, Remote (FS_migrateLocalDataToFirebase oneUser)]"
  using sync_migration_keeps_local [of "world0 True oneUser emptyData" memFS emptyData memDS]
  by (simp add: world0_def memFS_def memoryFirebase_def memDS_def memoryDataService_def
      noEntities_def emptyData_def)

text \<open>
  C1 (when the migration path is taken). A pass that starts and receives the remote
  snapshot takes the migration path exactly when \<^verbatim>\<open>users\<close>, \<^verbatim>\<open>components\<close> and \<^verbatim>\<open>requests\<close>
  of the snapshot are empty, whatever \<^verbatim>\<open>notifications\<close> and \<^verbatim>\<open>loginSessions\<close> hold; otherwise
  it merges and saves. So on a remote snapshot whose only entity is a notification the
  pass migrates: it does not merge, it saves nothing, and the local store does not
  receive the notification that the merge would have brought.
\<close>

theorem sync_path_three_collections:
  "isOnline w \<and> \<not> syncInProgress w
   \<and> fst (fs_syncWithFirebase fs (remoteStore w)) = Inr firebaseData \<longrightarrow>
     calls (syncWithFirebase ds fs w) =
       calls w @ [Local DS_getData, Remote FS_syncWithFirebase,
         if users firebaseData = [] \<and> components firebaseData = [] \<and> requests firebaseData = []
         then Remote (FS_migrateLocalDataToFirebase (ds_getData ds (localStore w)))
         else Local (DS_saveData (mergeData (ds_getData ds (localStore w)) firebaseData))]"
  by (simp add: syncWithFirebase_def isFirebaseEmpty_def call_simps Let_def split: sum.splits)

theorem sync_migrates_despite_remote_notification:
  "isOnline (world0 True oneUser notifOnly) \<and> \<not> syncInProgress (world0 True oneUser notifOnly)
   \<and> fst (fs_syncWithFirebase memFS (remoteStore (world0 True oneUser notifOnly))) = Inr notifOnly
   \<and> \<not> noEntities notifOnly
   \<and> calls (syncWithFirebase memDS memFS (world0 True oneUser notifOnly)) =
       [Local DS_getData, Remote FS_syncWithFirebase, Remote (FS_migrateLocalDataToFirebase oneUser)]
   \<and> notifications (mergeData oneUser notifOnly) = [item ''n1'' ''unread'']
   \<and> notifications (localStore (syncWithFirebase memDS memFS (world0 True oneUser notifOnly))) = []"
proof -
  have "localStore (syncWithFirebase memDS memFS (world0 True oneUser notifOnly)) = oneUser"
    by (simp add: isFirebaseEmpty_def notifOnly_def oneUser_def emptyData_def
        syncWithFirebase_def call_simps world0_def memFS_def memoryFirebase_def memDS_def
        memoryDataService_def)
  then have "notifications (localStore (syncWithFirebase memDS memFS (world0 True oneUser notifOnly))) = []"
    by (simp add: oneUser_def emptyData_def)
  with sync_path_three_collections [of "world0 True oneUser notifOnly" memFS notifOnly memDS]
  show ?thesis
    by (simp add: noEntities_def notifOnly_def oneUser_def emptyData_def world0_def memFS_def
        memoryFirebase_def memDS_def memoryDataService_def mergeData_def mergeArrays_def)
qed

section \<open>Claims about the wrappers\<close>













section \<open>Claims about \<^verbatim>\<open>endLoginSession\<close>\<close>













end
